theory Spec2Isabelle
  imports Main
begin

section \<open>The messaging hook \<open>useMessaging\<close> (next-frontend/hooks/useMessaging.ts)\<close>

text \<open>
  The hook keeps a chat list and the message sequence of the open chat in React state
  and reconciles both with chat objects stored on a ledger, which it reaches through
  asynchronous calls. The embedding makes three things explicit.

  \<^item> Object identity. React compares state by reference, and the merge functions
    choose between an object already held and a freshly built one. A reference is an
    address paired with the object stored there; the hook never mutates an object it
    holds (every update builds a new array or object), so the pairing is stable.
    Fresh addresses are drawn from a counter kept beside the React state.
  \<^item> The environment. What the ledger client answers during one call (the event
    page, each \<open>getObject\<close>, the signing and the finality of a transaction) is an
    input, each answer either a value or a thrown exception.
  \<^item> Platform functions. \<open>parseInt\<close>, \<open>TextEncoder\<close> and \<open>TextDecoder\<close> are
    parameters; a JavaScript number is an integer or \<open>NaN\<close>.
\<close>

subsection \<open>Values of the platform\<close>

datatype 'a ref = Ref (addr: nat) (contents: 'a)

datatype number = NaN | Num int

text \<open>\<open>a !== b\<close> on values that are a number or \<open>undefined\<close>: \<open>NaN\<close> differs from
  everything, itself included.\<close>

fun strict_neq :: "number option \<Rightarrow> number option \<Rightarrow> bool" where
  "strict_neq None None = False"
| "strict_neq (Some (Num a)) (Some (Num b)) = (a \<noteq> b)"
| "strict_neq _ _ = True"

text \<open>A thrown value: an \<open>Error\<close> with its message, or anything else.\<close>

datatype thrown = Error string | NonError

text \<open>\<open>err instanceof Error ? err.message : fallback\<close>\<close>

fun errorMsg :: "thrown \<Rightarrow> string \<Rightarrow> string" where
  "errorMsg (Error m) fallback = m"
| "errorMsg NonError fallback = fallback"

record platform =
  parseInt :: "string \<Rightarrow> number"
  encode :: "string \<Rightarrow> nat list"
  decode :: "nat list \<Rightarrow> string"

text \<open>\<open>Date.now().toString()\<close>: the decimal digits of a millisecond count.\<close>

fun toString :: "nat \<Rightarrow> string" where
  "toString n =
     (if n < 10 then [''0123456789'' ! n]
      else toString (n div 10) @ [''0123456789'' ! (n mod 10)])"

declare toString.simps [simp del]

subsection \<open>Data model (the interfaces at the top of the file)\<close>

record Message =
  sender :: string
  encrypted_message :: "nat list"
  content_hash :: "nat list"
  sent_timestamp :: string
  is_read :: bool

text \<open>A message as the ledger client returns it: its fields nested under \<open>fields\<close>,
  or flat. The hook flattens the first shape and passes the second through.\<close>

datatype raw_message = Nested Message | Flat Message

fun flatten :: "raw_message \<Rightarrow> Message" where
  "flatten (Nested m) =
     \<lparr>sender = sender m, encrypted_message = encrypted_message m,
      content_hash = content_hash m, sent_timestamp = sent_timestamp m,
      is_read = is_read m\<rparr>"
| "flatten (Flat m) = m"

text \<open>\<open>content.fields\<close> of a chat object; \<open>fields_messages\<close> may be missing.\<close>

record MoveFields =
  fields_id :: string
  fields_participant_1 :: string
  fields_participant_2 :: string
  fields_messages :: "raw_message list option"
  fields_created_at :: string

text \<open>The answer of \<open>getObject\<close>: a Move object with its fields, or anything else
  (no data, no content, a package).\<close>

datatype SuiObjectResponse = MoveObject MoveFields | OtherContent

record Chat =
  chat_obj_id :: string
  chat_participant_1 :: string
  chat_participant_2 :: string
  chat_messages :: "Message list ref"
  chat_created_at :: string

record LastMessage =
  msg_text :: string
  msg_sender :: string
  timestamp :: number

record ChatWithMetadata =
  chat_id :: string
  participant_1 :: string
  participant_2 :: string
  lastMessage :: "LastMessage option"
  unreadCount :: nat
  created_at :: number

text \<open>A \<open>ChatCreated\<close> event of the event query; \<open>parsedJson\<close> holds the chat id
  when it has one (reading \<open>chat_id\<close> of a missing \<open>parsedJson\<close> throws, and a
  \<open>getObject\<close> without an id is rejected: both end in the same \<open>catch\<close>).\<close>

record SuiEvent =
  parsedJson :: "string option"

text \<open>An event in the result of a finished transaction.\<close>

record TxEvent =
  event_type :: string
  event_chat_id :: "string option"

subsection \<open>The environment of one call\<close>

record environment =
  event_stream :: "thrown + SuiEvent list option"
  getObject :: "string \<Rightarrow> thrown + SuiObjectResponse"
  signAndExecute :: "thrown + string"
  waitForTransaction :: "string \<Rightarrow> thrown + TxEvent list option"

text \<open>\<open>suiClient.queryEvents({query, limit})\<close> answers one page: at most \<open>limit\<close>
  events, from the start of the stream of matching events. \<open>data\<close> may be missing.
  The hook never asks for a further page.\<close>

definition queryEvents :: "environment \<Rightarrow> nat \<Rightarrow> thrown + SuiEvent list option" where
  "queryEvents env limit =
     (case event_stream env of
        Inl err \<Rightarrow> Inl err
      | Inr None \<Rightarrow> Inr None
      | Inr (Some evs) \<Rightarrow> Inr (Some (take limit evs)))"

subsection \<open>The state of the hook\<close>

record hook_state =
  chats :: "ChatWithMetadata ref list ref"
  isCreatingChat :: bool
  isFetchingChats :: bool
  chatError :: "string option"
  currentChat :: "Chat option"
  messages :: "Message list ref"
  isFetchingMessages :: bool
  isSendingMessage :: bool
  next_ref :: nat

subsection \<open>\<open>sendMessage\<close>\<close>

text \<open>The optimistic message. \<open>Date.now()\<close> is read twice while it is built:
  \<open>now_hash\<close> for the content hash, then \<open>now\<close> for the provisional timestamp.\<close>

definition optimisticMessage :: "platform \<Rightarrow> string \<Rightarrow> string \<Rightarrow> nat \<Rightarrow> nat \<Rightarrow> Message" where
  "optimisticMessage pf address message now_hash now =
     \<lparr>sender = address,
      encrypted_message = encode pf message,
      content_hash = encode pf (''hash_'' @ toString now_hash),
      sent_timestamp = toString now,
      is_read = False\<rparr>"

text \<open>The synchronous part of \<open>sendMessage\<close>, up to its first \<open>await\<close>.\<close>

definition sendMessage_optimistic ::
    "platform \<Rightarrow> string option \<Rightarrow> string \<Rightarrow> nat \<Rightarrow> nat \<Rightarrow> hook_state \<Rightarrow> hook_state" where
  "sendMessage_optimistic pf currentAccount message now_hash now s =
     (case currentAccount of
        None \<Rightarrow> s\<lparr>chatError := Some ''Account not connected''\<rparr>
      | Some address \<Rightarrow>
          s\<lparr>isSendingMessage := True,
            chatError := None,
            messages := Ref (next_ref s)
              (contents (messages s) @ [optimisticMessage pf address message now_hash now]),
            next_ref := next_ref s + 1\<rparr>)"

subsection \<open>\<open>fetchChats\<close>\<close>

text \<open>The object literal built for a chat the user takes part in (lines 201-207).\<close>

record FetchedChat =
  fc_id :: string
  fc_participant_1 :: string
  fc_participant_2 :: string
  fc_messages :: "Message list"
  fc_created_at :: number

text \<open>The body of the callback mapped over \<open>events.data\<close>. Its own \<open>try/catch\<close>
  turns every exception into \<open>null\<close>, as does an object that is not a Move object and
  a chat the user is no participant of.\<close>

definition chatObject :: "platform \<Rightarrow> string \<Rightarrow> environment \<Rightarrow> SuiEvent \<Rightarrow> FetchedChat option" where
  "chatObject pf address env event =
     (case parsedJson event of
        None \<Rightarrow> None
      | Some chatId \<Rightarrow>
          (case getObject env chatId of
             Inl err \<Rightarrow> None
           | Inr OtherContent \<Rightarrow> None
           | Inr (MoveObject flds) \<Rightarrow>
               if fields_participant_1 flds = address \<or> fields_participant_2 flds = address
               then Some
                 \<lparr>fc_id = chatId,
                  fc_participant_1 = fields_participant_1 flds,
                  fc_participant_2 = fields_participant_2 flds,
                  fc_messages =
                    map flatten (case fields_messages flds of None \<Rightarrow> [] | Some ms \<Rightarrow> ms),
                  fc_created_at = parseInt pf (fields_created_at flds)\<rparr>
               else None))"

text \<open>\<open>chatObjects.filter((c) => c !== null)\<close> over the mapped events.\<close>

definition validChats :: "platform \<Rightarrow> string \<Rightarrow> environment \<Rightarrow> SuiEvent list \<Rightarrow> FetchedChat list" where
  "validChats pf address env evs = List.map_filter (chatObject pf address env) evs"

text \<open>The filter of line 245: a message counts as unread when somebody else sent
  it and it is not read.\<close>

definition isUnread :: "string \<Rightarrow> Message \<Rightarrow> bool" where
  "isUnread address m = (sender m \<noteq> address \<and> \<not> is_read m)"

text \<open>The summary of one chat (lines 226-254).\<close>

definition toChatWithMetadata :: "platform \<Rightarrow> string \<Rightarrow> FetchedChat \<Rightarrow> ChatWithMetadata" where
  "toChatWithMetadata pf address chat =
     \<lparr>chat_id = fc_id chat,
      participant_1 = fc_participant_1 chat,
      participant_2 = fc_participant_2 chat,
      lastMessage =
        (if fc_messages chat = [] then None
         else Some
           \<lparr>msg_text = decode pf (encrypted_message (last (fc_messages chat))),
            msg_sender = sender (last (fc_messages chat)),
            timestamp = parseInt pf (sent_timestamp (last (fc_messages chat)))\<rparr>),
      unreadCount = length (filter (isUnread address) (fc_messages chat)),
      created_at = fc_created_at chat\<rparr>"

text \<open>The array \<open>chatsWithMetadata\<close>. Its summaries are new objects: the one of
  the chat at position \<open>i\<close> gets the address \<open>a + i\<close>, the array itself the next one.\<close>

definition chatsWithMetadata ::
    "platform \<Rightarrow> string \<Rightarrow> nat \<Rightarrow> FetchedChat list \<Rightarrow> ChatWithMetadata ref list ref" where
  "chatsWithMetadata pf address a valid =
     Ref (a + length valid)
       (map (\<lambda>(r, chat). Ref r (toChatWithMetadata pf address chat)) (enumerate a valid))"

text \<open>\<open>new Map(prevChats.map((chat) => [chat.id, chat]))\<close>: of two entries with one
  key the later one stays.\<close>

definition existingChatsMap :: "ChatWithMetadata ref list \<Rightarrow> string \<Rightarrow> ChatWithMetadata ref option" where
  "existingChatsMap prevChats =
     map_of (rev (map (\<lambda>chat. (chat_id (contents chat), chat)) prevChats))"

definition lastTimestamp :: "ChatWithMetadata \<Rightarrow> number option" where
  "lastTimestamp chat = map_option timestamp (lastMessage chat)"

definition hasChanged :: "ChatWithMetadata \<Rightarrow> ChatWithMetadata \<Rightarrow> bool" where
  "hasChanged existingChat newChat =
     (strict_neq (lastTimestamp existingChat) (lastTimestamp newChat) \<or>
      unreadCount existingChat \<noteq> unreadCount newChat)"

definition mergedChats ::
    "ChatWithMetadata ref list \<Rightarrow> ChatWithMetadata ref list \<Rightarrow> ChatWithMetadata ref list" where
  "mergedChats prevChats newChats =
     map (\<lambda>newChat.
            case existingChatsMap prevChats (chat_id (contents newChat)) of
              Some existingChat \<Rightarrow>
                if hasChanged (contents existingChat) (contents newChat) then newChat
                else existingChat
            | None \<Rightarrow> newChat)
         newChats"

definition keptOldChats ::
    "ChatWithMetadata ref list \<Rightarrow> ChatWithMetadata ref list \<Rightarrow> ChatWithMetadata ref list" where
  "keptOldChats prevChats newChats =
     filter (\<lambda>chat. chat_id (contents chat) \<notin> set (map (\<lambda>c. chat_id (contents c)) newChats))
       prevChats"

text \<open>The updater passed to \<open>setChats\<close> (lines 259-291). With nothing held it returns
  the fetched array itself; otherwise it builds a new array, here at address \<open>a\<close>.\<close>

definition mergeChats ::
    "nat \<Rightarrow> ChatWithMetadata ref list ref \<Rightarrow> ChatWithMetadata ref list ref
       \<Rightarrow> ChatWithMetadata ref list ref" where
  "mergeChats a prevChats newChats =
     (if length (contents prevChats) = 0 then newChats
      else Ref a (mergedChats (contents prevChats) (contents newChats) @
                  keptOldChats (contents prevChats) (contents newChats)))"

text \<open>The \<open>finally\<close> block.\<close>

definition fetchChats_finally :: "bool \<Rightarrow> hook_state \<Rightarrow> hook_state" where
  "fetchChats_finally silent s = (if \<not> silent then s\<lparr>isFetchingChats := False\<rparr> else s)"

text \<open>One refresh cycle. The flags and the error are set before the first \<open>await\<close>;
  the chat list is written once, by the updater, against the list held at that
  moment. The cycle is modelled with no other update in between.\<close>

definition fetchChats ::
    "platform \<Rightarrow> string option \<Rightarrow> environment \<Rightarrow> bool \<Rightarrow> hook_state \<Rightarrow> hook_state" where
  "fetchChats pf currentAccount env silent s =
     (case currentAccount of
        None \<Rightarrow> s
      | Some address \<Rightarrow>
          (let s1 = (if \<not> silent then s\<lparr>isFetchingChats := True\<rparr> else s)\<lparr>chatError := None\<rparr>
           in fetchChats_finally silent
             (case queryEvents env 50 of
                Inl err \<Rightarrow> s1\<lparr>chatError := Some (errorMsg err ''Failed to fetch chats'')\<rparr>
              | Inr None \<Rightarrow> s1\<lparr>chats := Ref (next_ref s1) [], next_ref := next_ref s1 + 1\<rparr>
              | Inr (Some evs) \<Rightarrow>
                  if length evs = 0
                  then s1\<lparr>chats := Ref (next_ref s1) [], next_ref := next_ref s1 + 1\<rparr>
                  else
                    (let newChats =
                           chatsWithMetadata pf address (next_ref s1) (validChats pf address env evs)
                     in s1\<lparr>chats := mergeChats (addr newChats + 1) (chats s1) newChats,
                           next_ref := addr newChats + 2\<rparr>))))"

subsection \<open>\<open>getChatById\<close> and \<open>fetchMessages\<close>\<close>

definition getChatById ::
    "string option \<Rightarrow> environment \<Rightarrow> string \<Rightarrow> hook_state \<Rightarrow> Chat option \<times> hook_state" where
  "getChatById currentAccount env chatId s =
     (case currentAccount of
        None \<Rightarrow> (None, s)
      | Some address \<Rightarrow>
          (let s1 = s\<lparr>chatError := None\<rparr>
           in case getObject env chatId of
                Inl err \<Rightarrow> (None, s1\<lparr>chatError := Some (errorMsg err ''Failed to fetch chat'')\<rparr>)
              | Inr OtherContent \<Rightarrow> (None, s1)
              | Inr (MoveObject flds) \<Rightarrow>
                  (let chat =
                     \<lparr>chat_obj_id = fields_id flds,
                      chat_participant_1 = fields_participant_1 flds,
                      chat_participant_2 = fields_participant_2 flds,
                      chat_messages = Ref (next_ref s1)
                        (map flatten (case fields_messages flds of None \<Rightarrow> [] | Some ms \<Rightarrow> ms)),
                      chat_created_at = fields_created_at flds\<rparr>
                   in (Some chat, s1\<lparr>currentChat := Some chat, next_ref := next_ref s1 + 1\<rparr>))))"

text \<open>\<open>getChatById\<close> catches what it throws, so the \<open>catch\<close> of \<open>fetchMessages\<close> is
  never entered.\<close>

definition fetchMessages ::
    "string option \<Rightarrow> environment \<Rightarrow> string \<Rightarrow> bool \<Rightarrow> hook_state \<Rightarrow> hook_state" where
  "fetchMessages currentAccount env chatId silent s =
     (case currentAccount of
        None \<Rightarrow> s
      | Some address \<Rightarrow>
          (let s1 = (if \<not> silent then s\<lparr>isFetchingMessages := True\<rparr> else s)\<lparr>chatError := None\<rparr>;
               s3 = (case getChatById currentAccount env chatId s1 of
                       (Some chat, s2) \<Rightarrow> s2\<lparr>messages := chat_messages chat\<rparr>
                     | (None, s2) \<Rightarrow>
                         s2\<lparr>messages := Ref (next_ref s2) [], next_ref := next_ref s2 + 1\<rparr>)
           in if \<not> silent then s3\<lparr>isFetchingMessages := False\<rparr> else s3))"

subsection \<open>\<open>sendMessage\<close>, after its first \<open>await\<close>\<close>

text \<open>The \<open>catch\<close> block of \<open>sendMessage\<close>, followed by its \<open>finally\<close>: the error is
  surfaced and every held message that carries the provisional timestamp is
  filtered out.\<close>

definition sendMessage_rollback :: "thrown \<Rightarrow> nat \<Rightarrow> hook_state \<Rightarrow> hook_state" where
  "sendMessage_rollback err now s =
     s\<lparr>chatError := Some (errorMsg err ''Failed to send message''),
       messages := Ref (next_ref s)
         (filter (\<lambda>msg. sent_timestamp msg \<noteq> toString now) (contents (messages s))),
       next_ref := next_ref s + 1,
       isSendingMessage := False\<rparr>"

text \<open>The rest of \<open>sendMessage\<close>, run on the state held when the awaited calls
  settle; the result is \<open>{digest}\<close> or \<open>null\<close>.\<close>

definition sendMessage_settle ::
    "string option \<Rightarrow> environment \<Rightarrow> string \<Rightarrow> nat \<Rightarrow> hook_state \<Rightarrow> string option \<times> hook_state" where
  "sendMessage_settle currentAccount env chatId now s =
     (case signAndExecute env of
        Inl err \<Rightarrow> (None, sendMessage_rollback err now s)
      | Inr digest \<Rightarrow>
          (case waitForTransaction env digest of
             Inl err \<Rightarrow> (None, sendMessage_rollback err now s)
           | Inr result \<Rightarrow>
               (Some digest,
                (fetchMessages currentAccount env chatId False s)\<lparr>isSendingMessage := False\<rparr>)))"

text \<open>A whole call with no other update between the optimistic insert and the
  settlement.\<close>

definition sendMessage ::
    "platform \<Rightarrow> string option \<Rightarrow> environment \<Rightarrow> string \<Rightarrow> string \<Rightarrow> nat \<Rightarrow> nat \<Rightarrow> hook_state
       \<Rightarrow> string option \<times> hook_state" where
  "sendMessage pf currentAccount env chatId message now_hash now s =
     (case currentAccount of
        None \<Rightarrow> (None, sendMessage_optimistic pf currentAccount message now_hash now s)
      | Some address \<Rightarrow>
          sendMessage_settle currentAccount env chatId now
            (sendMessage_optimistic pf currentAccount message now_hash now s))"

subsection \<open>\<open>markAsRead\<close> and \<open>startChat\<close>\<close>

definition markAsRead ::
    "string option \<Rightarrow> environment \<Rightarrow> string \<Rightarrow> nat \<Rightarrow> hook_state \<Rightarrow> string option \<times> hook_state" where
  "markAsRead currentAccount env chatId messageIndex s =
     (case currentAccount of
        None \<Rightarrow> (None, s)
      | Some address \<Rightarrow>
          (case signAndExecute env of
             Inl err \<Rightarrow> (None, s)
           | Inr digest \<Rightarrow>
               (case waitForTransaction env digest of
                  Inl err \<Rightarrow> (None, s)
                | Inr result \<Rightarrow> (Some digest, fetchMessages currentAccount env chatId False s))))"

definition endsWith :: "string \<Rightarrow> string \<Rightarrow> bool" where
  "endsWith str suffix_str =
     (length suffix_str \<le> length str \<and>
      drop (length str - length suffix_str) str = suffix_str)"

text \<open>The result is \<open>{chatId}\<close> (the id may be \<open>undefined\<close>) or \<open>null\<close>.\<close>

definition startChat ::
    "platform \<Rightarrow> string option \<Rightarrow> environment \<Rightarrow> string \<Rightarrow> hook_state
       \<Rightarrow> string option option \<times> hook_state" where
  "startChat pf currentAccount env otherUserAddress s =
     (case currentAccount of
        None \<Rightarrow> (None, s\<lparr>chatError := Some ''Account not connected''\<rparr>)
      | Some address \<Rightarrow>
          (let s1 = s\<lparr>isCreatingChat := True, chatError := None\<rparr>;
               failed = (\<lambda>err. (None,
                 s1\<lparr>chatError := Some (errorMsg err ''Failed to start chat''),
                    isCreatingChat := False\<rparr>))
           in case signAndExecute env of
                Inl err \<Rightarrow> failed err
              | Inr digest \<Rightarrow>
                  (case waitForTransaction env digest of
                     Inl err \<Rightarrow> failed err
                   | Inr events \<Rightarrow>
                       (let chatCreatedEvent =
                              (case events of
                                 None \<Rightarrow> None
                               | Some es \<Rightarrow>
                                   find (\<lambda>e. endsWith (event_type e) ''::messaging::ChatCreated'') es);
                            chatId = (case chatCreatedEvent of
                                        None \<Rightarrow> None
                                      | Some e \<Rightarrow> event_chat_id e)
                        in (Some chatId,
                            (fetchChats pf currentAccount env False s1)\<lparr>isCreatingChat := False\<rparr>)))))"

subsection \<open>Polling the open chat\<close>

text \<open>\<open>xs[idx]\<close>, which is \<open>undefined\<close> past the end.\<close>

definition nth_opt :: "'a list \<Rightarrow> nat \<Rightarrow> 'a option" where
  "nth_opt xs idx = (if idx < length xs then Some (xs ! idx) else None)"

text \<open>The \<open>some\<close> of lines 607-614.\<close>

definition hasChanges :: "Message list \<Rightarrow> Message list \<Rightarrow> bool" where
  "hasChanges prevMessages transformedMessages =
     list_ex (\<lambda>idx.
                case nth_opt prevMessages idx of
                  None \<Rightarrow> True
                | Some prevMsg \<Rightarrow>
                    sent_timestamp prevMsg \<noteq> sent_timestamp (transformedMessages ! idx))
       [0..<length transformedMessages]"

text \<open>The updater passed to \<open>setMessages\<close> (lines 600-617).\<close>

definition mergeMessages :: "Message list ref \<Rightarrow> Message list ref \<Rightarrow> Message list ref" where
  "mergeMessages prevMessages transformedMessages =
     (if length (contents prevMessages) \<noteq> length (contents transformedMessages)
      then transformedMessages
      else if hasChanges (contents prevMessages) (contents transformedMessages)
      then transformedMessages
      else prevMessages)"

text \<open>One tick of the interval of lines 556-626. The effect captured \<open>currentChat\<close>,
  \<open>currentAccount\<close> and \<open>messages\<close> of the render that installed it
  (\<open>messages_seen\<close>); the updater runs against the sequence held when the fetch
  returns.\<close>

definition pollMessages ::
    "Chat option \<Rightarrow> string option \<Rightarrow> Message list ref \<Rightarrow> environment \<Rightarrow> hook_state \<Rightarrow> hook_state" where
  "pollMessages chat currentAccount messages_seen env s =
     (case (chat, currentAccount) of
        (Some c, Some address) \<Rightarrow>
          (case getObject env (chat_obj_id c) of
             Inl err \<Rightarrow> s
           | Inr OtherContent \<Rightarrow> s
           | Inr (MoveObject flds) \<Rightarrow>
               (let transformedMessages = Ref (next_ref s)
                      (map flatten (case fields_messages flds of None \<Rightarrow> [] | Some ms \<Rightarrow> ms));
                    s1 = s\<lparr>next_ref := next_ref s + 1\<rparr>;
                    hasNewMessages =
                      (length (contents transformedMessages) \<noteq> length (contents messages_seen));
                    lastMessageChanged =
                      (length (contents messages_seen) > 0 \<and>
                       length (contents transformedMessages) > 0 \<and>
                       sent_timestamp (last (contents messages_seen)) \<noteq>
                         sent_timestamp (last (contents transformedMessages)))
                in if hasNewMessages \<or> lastMessageChanged
                   then s1\<lparr>messages := mergeMessages (messages s1) transformedMessages\<rparr>
                   else s1))
      | _ \<Rightarrow> s)"

subsection \<open>Example data\<close>

text \<open>A platform whose \<open>parseInt\<close> reads plain decimal strings, two chats \<open>A\<close> and
  \<open>B\<close> between the users \<open>0xa\<close> and \<open>0xb\<close>, a ledger client that refuses to sign,
  and a state that holds both chats and one message of the open chat. The concrete
  instances below are computed on them.\<close>

definition ex_parseInt :: "string \<Rightarrow> number" where
  "ex_parseInt str =
     (if str \<noteq> [] \<and> list_all (\<lambda>c. c \<in> set ''0123456789'') str
      then Num (foldl (\<lambda>acc c. 10 * acc + (of_char c - 48)) 0 str)
      else NaN)"

definition ex_platform :: platform where
  "ex_platform = \<lparr>parseInt = ex_parseInt, encode = map of_char, decode = map char_of\<rparr>"

definition ex_message :: "string \<Rightarrow> string \<Rightarrow> bool \<Rightarrow> Message" where
  "ex_message from_address sent_at was_read =
     \<lparr>sender = from_address, encrypted_message = [104, 105], content_hash = [],
      sent_timestamp = sent_at, is_read = was_read\<rparr>"

definition ex_fields :: "string \<Rightarrow> raw_message list \<Rightarrow> MoveFields" where
  "ex_fields obj_id ms =
     \<lparr>fields_id = obj_id, fields_participant_1 = ''0xa'', fields_participant_2 = ''0xb'',
      fields_messages = Some ms, fields_created_at = ''50''\<rparr>"

definition ex_events :: "SuiEvent list" where
  "ex_events = [\<lparr>parsedJson = Some ''A''\<rparr>, \<lparr>parsedJson = Some ''B''\<rparr>]"

definition ex_env :: environment where
  "ex_env =
     \<lparr>event_stream = Inr (Some ex_events),
      getObject = (\<lambda>obj_id.
        if obj_id = ''A''
        then Inr (MoveObject (ex_fields ''A''
               [Nested (ex_message ''0xb'' ''100'' False), Flat (ex_message ''0xa'' ''200'' False)]))
        else if obj_id = ''B''
        then Inr (MoveObject (ex_fields ''B'' [Flat (ex_message ''0xb'' ''300'' False)]))
        else Inl (Error ''not found'')),
      signAndExecute = Inl (Error ''rejected''),
      waitForTransaction = (\<lambda>digest. Inr None)\<rparr>"

definition ex_summary :: "string \<Rightarrow> string \<Rightarrow> int \<Rightarrow> nat \<Rightarrow> ChatWithMetadata" where
  "ex_summary c last_sender last_at unread =
     \<lparr>chat_id = c, participant_1 = ''0xa'', participant_2 = ''0xb'',
      lastMessage = Some \<lparr>msg_text = ''hi'', msg_sender = last_sender, timestamp = Num last_at\<rparr>,
      unreadCount = unread, created_at = Num 50\<rparr>"

definition ex_chat :: Chat where
  "ex_chat =
     \<lparr>chat_obj_id = ''A'', chat_participant_1 = ''0xa'', chat_participant_2 = ''0xb'',
      chat_messages = Ref 3 [ex_message ''0xb'' ''100'' False], chat_created_at = ''50''\<rparr>"

definition ex_state :: hook_state where
  "ex_state =
     \<lparr>chats = Ref 0 [Ref 1 (ex_summary ''A'' ''0xa'' 200 1), Ref 2 (ex_summary ''B'' ''0xb'' 250 0)],
      isCreatingChat = False, isFetchingChats = False, chatError = None,
      currentChat = Some ex_chat,
      messages = Ref 3 [ex_message ''0xb'' ''100'' False],
      isFetchingMessages = False, isSendingMessage = False, next_ref = 4\<rparr>"

text \<open>Fifty events of chats unknown to the ledger client, then the event of chat \<open>B\<close>.\<close>

definition ex_long_events :: "SuiEvent list" where
  "ex_long_events =
     map (\<lambda>n. \<lparr>parsedJson = Some (toString n)\<rparr>) [0..<50] @ [\<lparr>parsedJson = Some ''B''\<rparr>]"

text \<open>The same state with two held messages, the first with another timestamp than
  the ledger's.\<close>

definition ex_state_polled :: hook_state where
  "ex_state_polled =
     ex_state\<lparr>messages := Ref 3 [ex_message ''0xb'' ''150'' False, ex_message ''0xa'' ''200'' False]\<rparr>"











section \<open>Properties\<close>

subsection \<open>Comparing numbers\<close>


lemma strict_neq_iff:
  assumes "a \<noteq> Some NaN"
  shows "strict_neq a b \<longleftrightarrow> a \<noteq> b"
proof (cases a)
  case None
  then show ?thesis by (cases b) simp_all
next
  case (Some n)
  with assms obtain x where n: "n = Num x" by (cases n) auto
  show ?thesis
  proof (cases b)
    case None
    with Some n show ?thesis by simp
  next
    case b: (Some m)
    with Some n show ?thesis by (cases m) simp_all
  qed
qed


subsection \<open>The chat-list merge, entry by entry\<close>



lemma existingChatsMap_SomeD:
  assumes "existingChatsMap prevChats k = Some e"
  shows "e \<in> set prevChats \<and> chat_id (contents e) = k"
  using assms by (auto simp: existingChatsMap_def dest!: map_of_SomeD)



lemma mergedChats_nth:
  assumes "i < length newChats"
  shows "mergedChats prevChats newChats ! i =
           (case existingChatsMap prevChats (chat_id (contents (newChats ! i))) of
              Some existingChat \<Rightarrow>
                if hasChanged (contents existingChat) (contents (newChats ! i)) then newChats ! i
                else existingChat
            | None \<Rightarrow> newChats ! i)"
  using assms by (simp add: mergedChats_def)

lemma length_mergedChats [simp]: "length (mergedChats prevChats newChats) = length newChats"
  by (simp add: mergedChats_def)

lemma mergedChats_eq_Nil [simp]: "mergedChats prevChats newChats = [] \<longleftrightarrow> newChats = []"
  by (simp add: mergedChats_def)

lemma mergedChats_id:
  assumes "i < length newChats"
  shows "chat_id (contents (mergedChats prevChats newChats ! i)) = chat_id (contents (newChats ! i))"
  using assms
  by (auto simp: mergedChats_nth split: option.split dest: existingChatsMap_SomeD)

lemma mergedChats_ids:
  "map (\<lambda>c. chat_id (contents c)) (mergedChats prevChats newChats) =
   map (\<lambda>c. chat_id (contents c)) newChats"
  by (rule nth_equalityI) (simp_all add: mergedChats_id)


lemma mergedChats_subset:
  "set (mergedChats prevChats newChats) \<subseteq> set prevChats \<union> set newChats"
  by (auto simp: mergedChats_def split: option.splits if_splits dest: existingChatsMap_SomeD)

lemma keptOldChats_ids:
  "\<forall>c \<in> set (keptOldChats prevChats newChats).
     chat_id (contents c) \<notin> set (map (\<lambda>c. chat_id (contents c)) newChats)"
  by (simp add: keptOldChats_def)



lemma mergeChats_subset:
  "set (contents (mergeChats a prevChats newChats)) \<subseteq>
     set (contents prevChats) \<union> set (contents newChats)"
  using mergedChats_subset [of "contents prevChats" "contents newChats"]
  by (auto simp: mergeChats_def keptOldChats_def)

lemma mergeChats_empty_batch:
  "contents (mergeChats a prevChats (Ref b [])) = contents prevChats"
  by (simp add: mergeChats_def mergedChats_def keptOldChats_def)

lemma mergeChats_keeps_absent:
  assumes "existingChat \<in> set (contents prevChats)"
      and "chat_id (contents existingChat) \<notin>
             set (map (\<lambda>c. chat_id (contents c)) (contents newChats))"
  shows "existingChat \<in> set (contents (mergeChats a prevChats newChats))"
  using assms by (auto simp: mergeChats_def keptOldChats_def)

lemma mergeChats_distinct:
  assumes "distinct (map (\<lambda>c. chat_id (contents c)) (contents prevChats))"
      and "distinct (map (\<lambda>c. chat_id (contents c)) (contents newChats))"
  shows "distinct (map (\<lambda>c. chat_id (contents c)) (contents (mergeChats a prevChats newChats)))"
proof (cases "contents prevChats = []")
  case True
  with assms(2) show ?thesis by (simp add: mergeChats_def)
next
  case False
  have "distinct (map (\<lambda>c. chat_id (contents c))
      (keptOldChats (contents prevChats) (contents newChats)))"
    using assms(1) by (simp add: keptOldChats_def distinct_map_filter)
  moreover
  have "set (map (\<lambda>c. chat_id (contents c)) (contents newChats)) \<inter>
      set (map (\<lambda>c. chat_id (contents c)) (keptOldChats (contents prevChats) (contents newChats))) = {}"
  proof -
    have "x \<notin> set (map (\<lambda>c. chat_id (contents c)) (contents newChats))"
      if "x \<in> set (map (\<lambda>c. chat_id (contents c))
                    (keptOldChats (contents prevChats) (contents newChats)))" for x
    proof -
      from that obtain c where "c \<in> set (keptOldChats (contents prevChats) (contents newChats))"
          and "x = chat_id (contents c)"
        by auto
      then show ?thesis
        using keptOldChats_ids [of "contents prevChats" "contents newChats"] by simp
    qed
    then show ?thesis by blast
  qed
  ultimately show ?thesis
    using False assms(2) by (simp add: mergeChats_def mergedChats_ids)
qed

subsection \<open>The summaries of a cycle\<close>

lemma chatsWithMetadata_nth:
  assumes "i < length valid"
  shows "contents (chatsWithMetadata pf address a valid) ! i =
           Ref (a + i) (toChatWithMetadata pf address (valid ! i))"
  using assms by (simp add: chatsWithMetadata_def nth_enumerate_eq)

lemma length_chatsWithMetadata [simp]:
  "length (contents (chatsWithMetadata pf address a valid)) = length valid"
  by (simp add: chatsWithMetadata_def)


lemma chatObject_id:
  assumes "chatObject pf address env event = Some chat"
  shows "parsedJson event = Some (fc_id chat)"
  using assms
  by (auto simp: chatObject_def split: option.splits sum.splits SuiObjectResponse.splits if_splits)

lemma chatObject_failure_skipped:
  assumes "getObject env chatId = Inl err"
  shows "chatObject pf address env \<lparr>parsedJson = Some chatId\<rparr> = None"
  using assms by (simp add: chatObject_def)

lemma chatObject_messages:
  assumes "chatObject pf address env event = Some chat"
  shows "\<exists>flds. getObject env (fc_id chat) = Inr (MoveObject flds) \<and>
           fc_messages chat =
             map flatten (case fields_messages flds of None \<Rightarrow> [] | Some ms \<Rightarrow> ms)"
  using assms
  by (auto simp: chatObject_def split: option.splits sum.splits SuiObjectResponse.splits if_splits)

lemma validChats_ids:
  assumes "chat \<in> set (validChats pf address env evs)"
  shows "Some (fc_id chat) \<in> parsedJson ` set evs"
proof -
  from assms obtain event where "event \<in> set evs" "chatObject pf address env event = Some chat"
    by (auto simp: validChats_def List.map_filter_def)
  then show ?thesis using chatObject_id by force
qed

lemma chatsWithMetadata_ids:
  assumes "c \<in> set (contents (chatsWithMetadata pf address a valid))"
  shows "chat_id (contents c) \<in> fc_id ` set valid"
proof -
  from assms obtain i where "i < length valid"
      "c = contents (chatsWithMetadata pf address a valid) ! i"
    by (auto simp: in_set_conv_nth)
  then have "chat_id (contents c) = fc_id (valid ! i)"
    by (simp add: chatsWithMetadata_nth toChatWithMetadata_def)
  with \<open>i < length valid\<close> show ?thesis by auto
qed

lemma validChats_event_stream_update [simp]:
  "validChats pf address (env\<lparr>event_stream := page\<rparr>) evs = validChats pf address env evs"
proof -
  have "chatObject pf address (env\<lparr>event_stream := page\<rparr>) = chatObject pf address env"
    by (rule ext) (simp add: chatObject_def split: option.split)
  then show ?thesis by (simp add: validChats_def)
qed

lemma fetchChats_chats:
  assumes "event_stream env = Inr (Some evs)" and "evs \<noteq> []"
  shows "chats (fetchChats pf (Some address) env silent s) =
           mergeChats
             (addr (chatsWithMetadata pf address (next_ref s) (validChats pf address env (take 50 evs))) + 1)
             (chats s)
             (chatsWithMetadata pf address (next_ref s) (validChats pf address env (take 50 evs)))"
  using assms
  by (cases evs) (simp_all add: fetchChats_def fetchChats_finally_def queryEvents_def Let_def)

lemma fetchChats_ignores_later_events:
  assumes "event_stream env = Inr (Some evs)"
  shows "fetchChats pf currentAccount (env\<lparr>event_stream := Inr (Some (take 50 evs))\<rparr>) silent s =
         fetchChats pf currentAccount env silent s"
  using assms
  by (cases evs) (simp_all add: fetchChats_def queryEvents_def Let_def split: option.split)

lemma fetchChats_keeps_absent:
  assumes "event_stream env = Inr (Some evs)" and "evs \<noteq> []"
      and "existingChat \<in> set (contents (chats s))"
      and "chat_id (contents existingChat) \<notin>
             fc_id ` set (validChats pf address env (take 50 evs))"
  shows "existingChat \<in> set (contents (chats (fetchChats pf (Some address) env silent s)))"
proof -
  have "chat_id (contents existingChat) \<notin>
      set (map (\<lambda>c. chat_id (contents c))
        (contents (chatsWithMetadata pf address (next_ref s)
           (validChats pf address env (take 50 evs)))))"
    using assms(4) chatsWithMetadata_ids by fastforce
  with assms(3) show ?thesis
    unfolding fetchChats_chats [OF assms(1,2)] by (rule mergeChats_keeps_absent)
qed

subsection \<open>Merging the same batch again\<close>







subsection \<open>The message merge\<close>

lemma hasChanges_iff:
  "hasChanges prevMessages transformedMessages \<longleftrightarrow>
     (\<exists>idx < length transformedMessages.
        idx < length prevMessages \<longrightarrow>
        sent_timestamp (prevMessages ! idx) \<noteq> sent_timestamp (transformedMessages ! idx))"
  by (auto simp: hasChanges_def list_ex_iff nth_opt_def split: option.splits if_splits)

lemma hasChanges_same [simp]: "\<not> hasChanges ms ms"
  by (simp add: hasChanges_iff)

lemma hasChanges_last:
  assumes "length prevMessages = length transformedMessages"
      and "prevMessages \<noteq> []"
      and "sent_timestamp (last prevMessages) \<noteq> sent_timestamp (last transformedMessages)"
  shows "hasChanges prevMessages transformedMessages"
proof -
  from assms(1,2) have "transformedMessages \<noteq> []" by auto
  with assms have "length transformedMessages - 1 < length transformedMessages"
      "sent_timestamp (prevMessages ! (length transformedMessages - 1)) \<noteq>
       sent_timestamp (transformedMessages ! (length transformedMessages - 1))"
    by (simp_all add: last_conv_nth)
  then show ?thesis unfolding hasChanges_iff by blast
qed


lemma pollMessages_messages:
  assumes "getObject env (chat_obj_id chat) = Inr (MoveObject flds)"
  shows "messages (pollMessages (Some chat) (Some address) seen env s) =
     (let fetched = map flatten (case fields_messages flds of None \<Rightarrow> [] | Some ms \<Rightarrow> ms)
      in if length fetched \<noteq> length (contents seen) \<or>
            (contents seen \<noteq> [] \<and> fetched \<noteq> [] \<and>
             sent_timestamp (last (contents seen)) \<noteq> sent_timestamp (last fetched))
         then mergeMessages (messages s) (Ref (next_ref s) fetched)
         else messages s)"
  using assms by (simp add: pollMessages_def Let_def)


subsection \<open>Failed submissions\<close>


lemma sendMessage_rollback_removes_all:
  "contents (messages (sendMessage_rollback err now s)) =
     filter (\<lambda>msg. sent_timestamp msg \<noteq> toString now) (contents (messages s))"
  by (simp add: sendMessage_rollback_def)

lemma markAsRead_failure_silent:
  assumes "signAndExecute env = Inl err \<or>
           (signAndExecute env = Inr digest \<and> waitForTransaction env digest = Inl err)"
  shows "markAsRead (Some address) env chatId messageIndex s = (None, s)"
  using assms by (auto simp: markAsRead_def)

section \<open>The claims\<close>




text \<open>
  C2, as the code has it. With the fetched sequence \<open>fetched\<close>, the held sequence
  \<open>held\<close>, and a poll whose effect captured the held sequence: when the lengths
  differ the fetched array replaces the held one; when the lengths are equal and the
  last elements carry the same \<open>sent_timestamp\<close> (or both sequences are empty) the held
  array stays, whatever the earlier elements are; when the lengths are equal and the
  last elements differ in \<open>sent_timestamp\<close> the fetched array replaces the held one.
\<close>

theorem pollMessages_replaces_or_keeps:
  fixes chat address env s flds
  defines "fetched \<equiv> map flatten (case fields_messages flds of None \<Rightarrow> [] | Some ms \<Rightarrow> ms)"
      and "held \<equiv> contents (messages s)"
      and "s' \<equiv> pollMessages (Some chat) (Some address) (messages s) env s"
  assumes object: "getObject env (chat_obj_id chat) = Inr (MoveObject flds)"
  shows "(length held \<noteq> length fetched \<longrightarrow> messages s' = Ref (next_ref s) fetched) \<and>
         (length held = length fetched \<and>
            (held = [] \<or> sent_timestamp (last held) = sent_timestamp (last fetched)) \<longrightarrow>
          messages s' = messages s) \<and>
         (length held = length fetched \<and> held \<noteq> [] \<and>
            sent_timestamp (last held) \<noteq> sent_timestamp (last fetched) \<longrightarrow>
          messages s' = Ref (next_ref s) fetched)"
proof -
  have differ: "messages s' = Ref (next_ref s) fetched" if "length held \<noteq> length fetched"
    using that unfolding s'_def pollMessages_messages [OF object]
    by (auto simp: Let_def fetched_def held_def mergeMessages_def)
  have same: "messages s' = messages s"
    if "length held = length fetched"
      and "held = [] \<or> sent_timestamp (last held) = sent_timestamp (last fetched)"
    using that unfolding s'_def pollMessages_messages [OF object]
    by (auto simp: Let_def fetched_def held_def)
  have last_differs: "messages s' = Ref (next_ref s) fetched"
    if "length held = length fetched" and "held \<noteq> []"
      and "sent_timestamp (last held) \<noteq> sent_timestamp (last fetched)"
  proof -
    from that have "hasChanges held fetched" by (rule hasChanges_last)
    moreover from that have "fetched \<noteq> []" by auto
    ultimately show ?thesis
      using that unfolding s'_def pollMessages_messages [OF object]
      by (simp add: Let_def fetched_def [symmetric] held_def [symmetric] mergeMessages_def)
  qed
  from differ same last_differs show ?thesis by blast
qed

theorem pollMessages_replaces_or_keeps_witness:
  "messages (pollMessages (Some ex_chat) (Some ''0xa'') (messages ex_state) ex_env ex_state) =
     Ref 4 [ex_message ''0xb'' ''100'' False, ex_message ''0xa'' ''200'' False] \<and>
   messages (pollMessages (Some ex_chat) (Some ''0xa'') (messages ex_state_polled) ex_env
               ex_state_polled) = messages ex_state_polled"
proof -
  have object: "getObject ex_env (chat_obj_id ex_chat) =
      Inr (MoveObject (ex_fields ''A''
        [Nested (ex_message ''0xb'' ''100'' False), Flat (ex_message ''0xa'' ''200'' False)]))"
    by (simp add: ex_env_def ex_chat_def)
  have fetched: "map flatten
      (case fields_messages (ex_fields ''A''
         [Nested (ex_message ''0xb'' ''100'' False), Flat (ex_message ''0xa'' ''200'' False)]) of
         None \<Rightarrow> [] | Some ms \<Rightarrow> ms) =
      [ex_message ''0xb'' ''100'' False, ex_message ''0xa'' ''200'' False]"
    by (simp add: ex_fields_def ex_message_def)
  have "messages (pollMessages (Some ex_chat) (Some ''0xa'') (messages ex_state) ex_env ex_state) =
      Ref 4 [ex_message ''0xb'' ''100'' False, ex_message ''0xa'' ''200'' False]"
    using pollMessages_replaces_or_keeps [OF object, where address = "''0xa''" and s = ex_state]
    by (simp add: fetched) (simp add: ex_state_def)
  moreover
  have "messages (pollMessages (Some ex_chat) (Some ''0xa'') (messages ex_state_polled) ex_env
               ex_state_polled) = messages ex_state_polled"
    using pollMessages_replaces_or_keeps [OF object, where address = "''0xa''"
        and s = ex_state_polled]
    by (simp add: fetched) (simp add: ex_state_polled_def ex_state_def ex_message_def)
  ultimately show ?thesis by simp
qed

text \<open>
  C2 as stated fails: two messages are held, the ledger returns two messages, the
  first timestamps differ (\<open>150\<close> held, \<open>100\<close> fetched) and the last ones agree. The
  guard in front of \<open>setMessages\<close> looks at the length and at the last element only, so
  the held array is not replaced.
\<close>

theorem pollMessages_keeps_despite_difference:
  "getObject ex_env (chat_obj_id ex_chat) =
     Inr (MoveObject (ex_fields ''A''
       [Nested (ex_message ''0xb'' ''100'' False), Flat (ex_message ''0xa'' ''200'' False)])) \<and>
   contents (messages ex_state_polled) =
     [ex_message ''0xb'' ''150'' False, ex_message ''0xa'' ''200'' False] \<and>
   sent_timestamp (ex_message ''0xb'' ''150'' False) \<noteq>
     sent_timestamp (flatten (Nested (ex_message ''0xb'' ''100'' False))) \<and>
   messages (pollMessages (Some ex_chat) (Some ''0xa'') (messages ex_state_polled) ex_env
               ex_state_polled) = messages ex_state_polled"
  by code_simp

text \<open>
  C3 at a failing input: two summaries are held and the event query answers an empty
  page. The cycle ends without an exception and with an empty chat list, although none
  of the two ids was returned by the fetch. (On the path through the merge a held
  summary whose id is not in the batch stays: \<open>fetchChats_keeps_absent\<close>,
  \<open>mergeChats_empty_batch\<close>.)
\<close>

theorem fetchChats_no_events_clears:
  "contents (chats ex_state) =
     [Ref 1 (ex_summary ''A'' ''0xa'' 200 1), Ref 2 (ex_summary ''B'' ''0xb'' 250 0)] \<and>
   contents (chats (fetchChats ex_platform (Some ''0xa'')
       (ex_env\<lparr>event_stream := Inr (Some [])\<rparr>) True ex_state)) = [] \<and>
   chatError (fetchChats ex_platform (Some ''0xa'')
       (ex_env\<lparr>event_stream := Inr (Some [])\<rparr>) True ex_state) = None"
  by code_simp




text \<open>
  C5. With an account connected, the part of \<open>sendMessage\<close> before its first \<open>await\<close>
  (it does not read the environment) appends one message to the held sequence: the
  sequence is one longer, the optimistic message is last, its sender is the current
  user and its \<open>sent_timestamp\<close> is the clock reading in decimal digits. The rest of the
  call runs on the state so reached.
\<close>

theorem sendMessage_optimistic_appends:
  "contents (messages (sendMessage_optimistic pf (Some address) message now_hash now s)) =
     contents (messages s) @ [optimisticMessage pf address message now_hash now] \<and>
   length (contents (messages (sendMessage_optimistic pf (Some address) message now_hash now s))) =
     length (contents (messages s)) + 1 \<and>
   last (contents (messages (sendMessage_optimistic pf (Some address) message now_hash now s))) =
     optimisticMessage pf address message now_hash now \<and>
   sender (optimisticMessage pf address message now_hash now) = address \<and>
   sent_timestamp (optimisticMessage pf address message now_hash now) = toString now \<and>
   sendMessage pf (Some address) env chatId message now_hash now s =
     sendMessage_settle (Some address) env chatId now
       (sendMessage_optimistic pf (Some address) message now_hash now s)"
  by (simp add: sendMessage_optimistic_def optimisticMessage_def sendMessage_def)

theorem sendMessage_optimistic_appends_witness:
  "contents (messages (sendMessage_optimistic ex_platform (Some ''0xa'') ''hi'' 200 201 ex_state)) =
     [ex_message ''0xb'' ''100'' False,
      \<lparr>sender = ''0xa'', encrypted_message = [104, 105],
       content_hash = [104, 97, 115, 104, 95, 50, 48, 48], sent_timestamp = ''201'',
       is_read = False\<rparr>]"
proof -
  have held: "contents (messages ex_state) = [ex_message ''0xb'' ''100'' False]"
    by (simp add: ex_state_def)
  have built: "optimisticMessage ex_platform ''0xa'' ''hi'' 200 201 =
      \<lparr>sender = ''0xa'', encrypted_message = [104, 105],
       content_hash = [104, 97, 115, 104, 95, 50, 48, 48], sent_timestamp = ''201'',
       is_read = False\<rparr>"
    by code_simp
  show ?thesis
    using sendMessage_optimistic_appends [of ex_platform "''0xa''" "''hi''" 200 201 ex_state]
    by (simp add: held built)
qed









text \<open>
  C9 at a failing input: the wallet rejects the transaction. \<open>markAsRead\<close> returns
  \<open>null\<close> and leaves the state as it was, \<open>chatError\<close> included (\<open>markAsRead_failure_silent\<close>
  for every such call), while \<open>sendMessage\<close> on the same rejection sets \<open>chatError\<close>.
\<close>

theorem markAsRead_failure_not_surfaced:
  "signAndExecute ex_env = Inl (Error ''rejected'') \<and>
   markAsRead (Some ''0xa'') ex_env ''A'' 0 ex_state = (None, ex_state) \<and>
   chatError (snd (markAsRead (Some ''0xa'') ex_env ''A'' 0 ex_state)) = None \<and>
   chatError (snd (sendMessage ex_platform (Some ''0xa'') ex_env ''A'' ''hi'' 200 200 ex_state)) =
     Some ''rejected''"
  by code_simp

text \<open>
  C10. A refresh reads the first 50 events of the stream and nothing after them: a
  summary in the list after the cycle whose chat id is not among those 50 events was
  in the list before, and the cycle runs the same on the stream cut after its first
  50 events.
\<close>

theorem fetchChats_examines_first_50:
  assumes stream: "event_stream env = Inr (Some evs)"
      and present: "c \<in> set (contents (chats (fetchChats pf currentAccount env silent s)))"
      and outside: "Some (chat_id (contents c)) \<notin> parsedJson ` set (take 50 evs)"
  shows "c \<in> set (contents (chats s)) \<and>
         fetchChats pf currentAccount (env\<lparr>event_stream := Inr (Some (take 50 evs))\<rparr>) silent s =
           fetchChats pf currentAccount env silent s"
proof (cases currentAccount)
  case None
  with present show ?thesis
    using fetchChats_ignores_later_events [OF stream] by (simp add: fetchChats_def)
next
  case (Some address)
  show ?thesis
  proof (cases "take 50 evs = []")
    case True
    then have "evs = []" by (cases evs) auto
    with stream Some have "contents (chats (fetchChats pf currentAccount env silent s)) = []"
      by (simp add: fetchChats_def fetchChats_finally_def queryEvents_def)
    with present show ?thesis by simp
  next
    case False
    then have "evs \<noteq> []" by auto
    let ?new = "chatsWithMetadata pf address (next_ref s) (validChats pf address env (take 50 evs))"
    from present Some have "c \<in> set (contents (mergeChats (addr ?new + 1) (chats s) ?new))"
      using fetchChats_chats [OF stream \<open>evs \<noteq> []\<close>] by simp
    then have "c \<in> set (contents (chats s)) \<or> c \<in> set (contents ?new)"
      using mergeChats_subset by blast
    moreover have "c \<notin> set (contents ?new)"
    proof
      assume "c \<in> set (contents ?new)"
      then have "chat_id (contents c) \<in> fc_id ` set (validChats pf address env (take 50 evs))"
        by (rule chatsWithMetadata_ids)
      then have "Some (chat_id (contents c)) \<in> parsedJson ` set (take 50 evs)"
        using validChats_ids by fastforce
      with outside show False by simp
    qed
    ultimately show ?thesis
      using fetchChats_ignores_later_events [OF stream] by simp
  qed
qed

theorem fetchChats_examines_first_50_witness:
  "Ref 2 (ex_summary ''B'' ''0xb'' 250 0) \<in> set (contents (chats
       (fetchChats ex_platform (Some ''0xa'') (ex_env\<lparr>event_stream := Inr (Some ex_long_events)\<rparr>)
          True ex_state))) \<and>
   Some ''B'' \<in> parsedJson ` set ex_long_events \<and>
   Some ''B'' \<notin> parsedJson ` set (take 50 ex_long_events) \<and>
   fetchChats ex_platform (Some ''0xa'')
     (ex_env\<lparr>event_stream := Inr (Some (take 50 ex_long_events))\<rparr>) True ex_state =
   fetchChats ex_platform (Some ''0xa'')
     (ex_env\<lparr>event_stream := Inr (Some ex_long_events)\<rparr>) True ex_state"
proof -
  let ?env = "ex_env\<lparr>event_stream := Inr (Some ex_long_events)\<rparr>"
  have stream: "event_stream ?env = Inr (Some ex_long_events)"
    by simp
  have present: "Ref 2 (ex_summary ''B'' ''0xb'' 250 0) \<in> set (contents (chats
       (fetchChats ex_platform (Some ''0xa'') ?env True ex_state)))"
    by code_simp
  have listed: "Some ''B'' \<in> parsedJson ` set ex_long_events"
    by code_simp
  have outside: "Some (chat_id (contents (Ref 2 (ex_summary ''B'' ''0xb'' 250 0)))) \<notin>
      parsedJson ` set (take 50 ex_long_events)"
    by code_simp
  have outside': "Some ''B'' \<notin> parsedJson ` set (take 50 ex_long_events)"
    using outside by (simp add: ex_summary_def)
  show ?thesis
    using fetchChats_examines_first_50 [OF stream present outside] present listed outside'
    by simp
qed

end
